theory Spec2Isabelle
  imports Main "HOL-Library.Word"
begin

section \<open>Data model of workflow\_job\_template.go\<close>

text \<open>
  Go's \<open>int\<close> is a two's complement machine integer; on the 64-bit targets it has 64 bits.
  \<open>tryCount++\<close> wraps around, and \<open><=\<close> compares the signed readings (\<open>sint\<close>).
\<close>

type_synonym goint = "64 word"

text \<open>The \<open>JobStatus\<close> constants (lines 14-22).\<close>

definition PENDING :: string where "PENDING = ''pending''"
definition WAITING :: string where "WAITING = ''waiting''"
definition RUNNING :: string where "RUNNING = ''running''"
definition SUCCESSFUL :: string where "SUCCESSFUL = ''successful''"
definition FAILED :: string where "FAILED = ''failed''"
definition ERROR :: string where "ERROR = ''error''"
definition CANCELED :: string where "CANCELED = ''canceled''"

text \<open>
  The error values the file can return. The first two come from the collaborators
  (\<open>Requester\<close> and \<open>CheckResponse\<close>) and carry their message; the others are built in
  this file: \<open>errors.New("invalid job id 0")\<close> (line 89), the \<open>fmt.Errorf\<close> of line 136,
  which prints \<open>maxtries\<close>, and the one of line 152, which prints the list that
  \<open>ValidateParams\<close> returned. \<open>MarshalError\<close> is the error of \<open>json.Marshal\<close>.
\<close>

datatype error =
    RequesterError string
  | ResponseError string
  | InvalidJobId0
  | MaxTriesReached goint
  | MandatoryAbsent "string list"
  | MarshalError string

text \<open>
  The struct \<open>Job\<close> is declared in another file; this one reads its field \<open>Status\<close> only.
  The identifier and the remaining fields are kept as data the code never inspects.
\<close>

record Job =
  ID :: goint
  Status :: string
  Metadata :: "(string \<times> string) list"

text \<open>\<open>&Job{}\<close>: every field has its zero value.\<close>

definition Job_zero :: Job where
  "Job_zero = \<lparr>ID = 0, Status = [], Metadata = []\<rparr>"

record WorkflowJobLaunch =
  WorkflowJob :: goint

section \<open>The transport collaborator\<close>

text \<open>
  One call \<open>jt.client.Requester.GetJSON(endpoint, result, nil)\<close> followed by
  \<open>CheckResponse(resp)\<close> is summarised by what the watcher can observe of it: the content
  of \<open>*result\<close> once the call is back, the error of \<open>GetJSON\<close> (\<open>None\<close> is \<open>nil\<close>) and the
  error of \<open>CheckResponse\<close>. The endpoint is fixed by the job id, so the transport is a
  function of the job id and of the ordinal of the request (0 for the first one). Both
  collaborators live outside this file: nothing is assumed about how the two errors and
  the decoded content are related, so every combination is a possible reply.
\<close>

record poll_reply =
  decoded :: Job
  getjson_err :: "string option"
  checkresponse_err :: "string option"

type_synonym transport = "goint \<Rightarrow> nat \<Rightarrow> poll_reply"

text \<open>A transport that answers from a finite script and repeats a last reply afterwards.\<close>

definition script :: "poll_reply list \<Rightarrow> poll_reply \<Rightarrow> transport" where
  "script rs r = (\<lambda>jobid i. if i < length rs then rs ! i else r)"

definition ok_reply :: "goint \<Rightarrow> string \<Rightarrow> poll_reply" where
  "ok_reply jobid s =
     \<lparr>decoded = \<lparr>ID = jobid, Status = s, Metadata = []\<rparr>,
      getjson_err = None, checkresponse_err = None\<rparr>"

section \<open>DefaultJobHandler (lines 113-144)\<close>

text \<open>
  The state of the goroutine: the number of GET requests issued so far, the local
  \<open>tryCount\<close>, the shared \<open>*result\<close>, the number of \<open>time.Sleep\<close> calls, and the hand-off.
  \<open>quitChan\<close> is unbuffered and the caller receives from it exactly once (line 142), so
  the first send is taken by the caller, which then returns \<open>result, err\<close> (line 143);
  \<open>received\<close> records the content of \<open>*result\<close> at that moment, the error sent, and the
  number of requests issued up to then. Any later send finds no receiver and blocks for ever.
\<close>

record watcher =
  polls :: nat
  tryCount :: goint
  result :: Job
  sleeps :: nat
  received :: "(Job \<times> error option \<times> nat) option"

definition send :: "error option \<Rightarrow> watcher \<Rightarrow> watcher option" where
  "send v w =
     (case received w of
        None \<Rightarrow> Some (w\<lparr>received := Some (result w, v, polls w)\<rparr>)
      | Some _ \<Rightarrow> None)"

text \<open>
  What one pass through the body of the \<open>for\<close> loop does to the goroutine: it goes on to
  the next pass (\<open>Continue\<close>), it leaves the function (\<open>Return\<close>), or it is blocked for ever
  in a send that nobody receives (\<open>Stuck\<close>).
\<close>

datatype flow = Continue watcher | Return watcher | Stuck watcher

fun flow_state :: "flow \<Rightarrow> watcher" where
  "flow_state (Continue w) = w"
| "flow_state (Return w) = w"
| "flow_state (Stuck w) = w"

text \<open>
  Lines 120-139. After the send of line 123 there is no \<open>return\<close>: the goroutine goes on
  with line 126. The sends of lines 127, 131 and 136 are each followed by \<open>return\<close>.
\<close>

definition iteration :: "transport \<Rightarrow> goint \<Rightarrow> goint \<Rightarrow> goint \<Rightarrow> watcher \<Rightarrow> flow" where
  "iteration T jobid checkInterval maxtries w =
     (let r = T jobid (polls w);
          w1 = w\<lparr>polls := Suc (polls w), result := decoded r\<rparr>
      in case (case getjson_err r of
                 None \<Rightarrow> Some w1
               | Some e \<Rightarrow> send (Some (RequesterError e)) w1) of
           None \<Rightarrow> Stuck w1
         | Some w2 \<Rightarrow>
            (case checkresponse_err r of
               Some e \<Rightarrow>
                 (case send (Some (ResponseError e)) w2 of
                    None \<Rightarrow> Stuck w2
                  | Some w3 \<Rightarrow> Return w3)
             | None \<Rightarrow>
                 if Status (result w2) \<noteq> PENDING \<and> Status (result w2) \<noteq> WAITING
                    \<and> Status (result w2) \<noteq> RUNNING
                 then (case send None w2 of
                         None \<Rightarrow> Stuck w2
                       | Some w3 \<Rightarrow> Return w3)
                 else
                   (let w3 = w2\<lparr>tryCount := tryCount w2 + 1\<rparr>
                    in if sint (tryCount w3) \<le> sint maxtries \<and> maxtries \<noteq> - 1
                       then (case send (Some (MaxTriesReached maxtries)) w3 of
                               None \<Rightarrow> Stuck w3
                             | Some w4 \<Rightarrow> Return w4)
                       else Continue (w3\<lparr>sleeps := Suc (sleeps w3)\<rparr>))))"

text \<open>
  The \<open>for\<close> loop has no exit condition of its own, so it is run for a number of passes:
  \<open>goroutine n\<close> is the goroutine after at most \<open>n\<close> passes, \<open>Continue\<close> when it is still
  looping then.
\<close>

fun goroutine :: "nat \<Rightarrow> transport \<Rightarrow> goint \<Rightarrow> goint \<Rightarrow> goint \<Rightarrow> watcher \<Rightarrow> flow" where
  "goroutine 0 T jobid checkInterval maxtries w = Continue w"
| "goroutine (Suc n) T jobid checkInterval maxtries w =
     (case iteration T jobid checkInterval maxtries w of
        Continue w' \<Rightarrow> goroutine n T jobid checkInterval maxtries w'
      | Return w' \<Rightarrow> Return w'
      | Stuck w' \<Rightarrow> Stuck w')"

text \<open>Lines 115-117: \<open>result := &Job{}\<close>, the empty channel, \<open>tryCount := 0\<close>.\<close>

definition watcher_init :: watcher where
  "watcher_init =
     \<lparr>polls = 0, tryCount = 0, result = Job_zero, sleeps = 0, received = None\<rparr>"

definition watch :: "nat \<Rightarrow> transport \<Rightarrow> goint \<Rightarrow> goint \<Rightarrow> goint \<Rightarrow> flow" where
  "watch n T jobid checkInterval maxtries =
     goroutine n T jobid checkInterval maxtries watcher_init"

text \<open>
  Lines 142-143, the caller's side: \<open>None\<close> while the caller is still blocked in
  \<open><-quitChan\<close> after \<open>n\<close> passes of the goroutine, otherwise the pair it returns. The
  pointer \<open>result\<close> is never nil.
\<close>

definition DefaultJobHandler ::
  "nat \<Rightarrow> transport \<Rightarrow> goint \<Rightarrow> goint \<Rightarrow> goint \<Rightarrow> (Job \<times> error option) option" where
  "DefaultJobHandler n T jobid checkInterval maxtries =
     (case received (flow_state (watch n T jobid checkInterval maxtries)) of
        None \<Rightarrow> None
      | Some (job, err, k) \<Rightarrow> Some (job, err))"

text \<open>The number of requests that had been issued when the caller got its outcome.\<close>

definition polls_at_outcome :: "nat \<Rightarrow> transport \<Rightarrow> goint \<Rightarrow> goint \<Rightarrow> goint \<Rightarrow> nat option" where
  "polls_at_outcome n T jobid checkInterval maxtries =
     (case received (flow_state (watch n T jobid checkInterval maxtries)) of
        None \<Rightarrow> None
      | Some (job, err, k) \<Rightarrow> Some k)"

text \<open>
  Two readings of a reply that the statements below use. A reply keeps the watcher going
  when neither call failed and the status is one of the three of line 130; otherwise the
  first send of that pass carries the error of \<open>GetJSON\<close> (line 123), else the error of
  \<open>CheckResponse\<close> (line 127), else \<open>nil\<close> (line 131).
\<close>

definition in_flight_ok :: "poll_reply \<Rightarrow> bool" where
  "in_flight_ok r =
     (getjson_err r = None \<and> checkresponse_err r = None \<and>
      (Status (decoded r) = PENDING \<or> Status (decoded r) = WAITING
       \<or> Status (decoded r) = RUNNING))"

definition first_error :: "poll_reply \<Rightarrow> error option" where
  "first_error r =
     (case getjson_err r of
        Some e \<Rightarrow> Some (RequesterError e)
      | None \<Rightarrow>
          (case checkresponse_err r of
             Some e \<Rightarrow> Some (ResponseError e)
           | None \<Rightarrow> None))"

section \<open>Launch (lines 73-93)\<close>

text \<open>
  What \<open>PostJSON\<close> on the launch endpoint of a template and \<open>CheckResponse\<close> give back:
  the two errors and the decoded \<open>WorkflowJobLaunch\<close>.
\<close>

record launch_reply =
  launch_err :: "string option"
  launch_check :: "string option"
  launch_decoded :: WorkflowJobLaunch

text \<open>
  A \<open>JobHanlder\<close> gets the job id, the interval and the bound, and returns a \<open>*Job\<close>
  (\<open>None\<close> is the nil pointer) and an error; it may also never return, which is the outer
  \<open>None\<close>. The receiver \<open>jt\<close> is the same value in every call and is left out.
\<close>

type_synonym JobHanlder = "goint \<Rightarrow> goint \<Rightarrow> goint \<Rightarrow> (Job option \<times> error option) option"

text \<open>
  A run of \<open>Launch\<close>: the triple it returns (\<open>None\<close> when the handler never returns) and
  the calls of the handler it made, each with its three arguments.
\<close>

record launch_run =
  returned :: "(WorkflowJobLaunch option \<times> Job option \<times> error option) option"
  handler_calls :: "(goint \<times> goint \<times> goint) list"

definition Launch ::
  "(goint \<Rightarrow> launch_reply) \<Rightarrow> goint \<Rightarrow> JobHanlder \<Rightarrow> goint \<Rightarrow> goint \<Rightarrow> launch_run" where
  "Launch PostJSON id' jobHanlder jobCheckInterval jobCheckmaxtries =
     (let r = PostJSON id'
      in case launch_err r of
           Some e \<Rightarrow>
             \<lparr>returned = Some (None, None, Some (RequesterError e)), handler_calls = []\<rparr>
         | None \<Rightarrow>
            (case launch_check r of
               Some e \<Rightarrow>
                 \<lparr>returned = Some (None, None, Some (ResponseError e)), handler_calls = []\<rparr>
             | None \<Rightarrow>
                 if WorkflowJob (launch_decoded r) = 0
                 then \<lparr>returned = Some (None, None, Some InvalidJobId0), handler_calls = []\<rparr>
                 else
                   \<lparr>returned =
                      (case jobHanlder (WorkflowJob (launch_decoded r))
                              jobCheckInterval jobCheckmaxtries of
                         None \<Rightarrow> None
                       | Some (jobresult, err) \<Rightarrow>
                           Some (Some (launch_decoded r), jobresult, err)),
                    handler_calls =
                      [(WorkflowJob (launch_decoded r), jobCheckInterval,
                        jobCheckmaxtries)]\<rparr>))"

text \<open>\<open>DefaultJobHandler\<close> as a \<open>JobHanlder\<close>: its \<open>*Job\<close> is never nil.\<close>

definition DefaultJobHandler_as_handler :: "nat \<Rightarrow> transport \<Rightarrow> JobHanlder" where
  "DefaultJobHandler_as_handler n T jobid checkInterval maxtries =
     (case DefaultJobHandler n T jobid checkInterval maxtries of
        None \<Rightarrow> None
      | Some (job, err) \<Rightarrow> Some (Some job, err))"

section \<open>CreateJobTemplate (lines 146-169)\<close>

text \<open>
  Modelled from the spec: \<open>ValidateParams\<close> is called at line 150 and defined in another
  file of the package. The specification says that the required fields are checked for
  presence in the create payload and that the failure names the missing fields: the first
  result lists the required fields that are not keys of the payload, in the order of the
  required fields, and the second says whether none is missing.
\<close>

definition ValidateParams :: "(string \<rightharpoonup> 'v) \<Rightarrow> string list \<Rightarrow> string list \<times> bool" where
  "ValidateParams data required =
     (let notfound = filter (\<lambda>key. data key = None) required
      in (notfound, notfound = []))"

text \<open>Line 149.\<close>

definition mandatoryFields :: "string list" where
  "mandatoryFields = [''name'', ''job_type'', ''inventory'', ''project'']"

text \<open>
  What \<open>PostJSON\<close> on the collection endpoint and \<open>CheckResponse\<close> give back; the struct
  \<open>JobTemplate\<close> is declared elsewhere and stays a type parameter, as do the bytes that
  \<open>json.Marshal\<close> produces and the query parameters.
\<close>

record 't create_reply =
  create_err :: "string option"
  create_check :: "string option"
  create_decoded :: 't

text \<open>
  A run of \<open>CreateJobTemplate\<close>: the pair it returns and the requests it issued, each with
  its endpoint, body and query parameters.
\<close>

record ('t, 'b, 'p) create_run =
  created :: "'t option \<times> error option"
  requests :: "(string \<times> 'b \<times> 'p) list"

definition CreateJobTemplate ::
  "((string \<rightharpoonup> 'v) \<Rightarrow> string + 'b) \<Rightarrow> (string \<Rightarrow> 'b \<Rightarrow> 'p \<Rightarrow> 't create_reply) \<Rightarrow>
   (string \<rightharpoonup> 'v) \<Rightarrow> 'p \<Rightarrow> ('t, 'b, 'p) create_run" where
  "CreateJobTemplate Marshal PostJSON data params =
     (let (validate, status) = ValidateParams data mandatoryFields
      in if \<not> status
         then \<lparr>created = (None, Some (MandatoryAbsent validate)), requests = []\<rparr>
         else
           (let endpoint = ''/api/v2/workflow_job_templates/''
            in case Marshal data of
                 Inl e \<Rightarrow> \<lparr>created = (None, Some (MarshalError e)), requests = []\<rparr>
               | Inr payload \<Rightarrow>
                  (let r = PostJSON endpoint payload params
                   in case create_err r of
                        Some e \<Rightarrow>
                          \<lparr>created = (None, Some (RequesterError e)),
                           requests = [(endpoint, payload, params)]\<rparr>
                      | None \<Rightarrow>
                         (case create_check r of
                            Some e \<Rightarrow>
                              \<lparr>created = (None, Some (ResponseError e)),
                               requests = [(endpoint, payload, params)]\<rparr>
                          | None \<Rightarrow>
                              \<lparr>created = (Some (create_decoded r), None),
                               requests = [(endpoint, payload, params)]\<rparr>))))"

section \<open>Properties of the polling loop\<close>

lemmas JobStatus_defs =
  PENDING_def WAITING_def RUNNING_def SUCCESSFUL_def FAILED_def ERROR_def CANCELED_def

lemma goroutine_add:
  "goroutine (a + b) T j c m w =
     (case goroutine a T j c m w of
        Continue w' \<Rightarrow> goroutine b T j c m w'
      | Return w' \<Rightarrow> Return w'
      | Stuck w' \<Rightarrow> Stuck w')"
  by (induction a arbitrary: w) (auto split: flow.splits)

lemma iteration_in_flight:
  assumes "in_flight_ok (T j (polls w))"
    and "\<not> (sint (tryCount w + 1) \<le> sint m \<and> m \<noteq> - 1)"
  shows "iteration T j c m w =
     Continue (w\<lparr>polls := Suc (polls w), result := decoded (T j (polls w)),
                 tryCount := tryCount w + 1, sleeps := Suc (sleeps w)\<rparr>)"
  using assms by (auto simp: iteration_def in_flight_ok_def Let_def)

lemma iteration_resolves:
  assumes "\<not> in_flight_ok (T j (polls w))" and "received w = None"
  shows "received (flow_state (iteration T j c m w)) =
     Some (decoded (T j (polls w)), first_error (T j (polls w)), Suc (polls w))"
  using assms
  by (auto simp: iteration_def in_flight_ok_def first_error_def send_def Let_def
      split: option.splits)

lemma iteration_received_stable:
  assumes "received w = Some x"
  shows "received (flow_state (iteration T j c m w)) = Some x"
  using assms
  by (auto simp: iteration_def send_def Let_def split: option.splits)

lemma goroutine_received_stable:
  "received w = Some x \<Longrightarrow> received (flow_state (goroutine n T j c m w)) = Some x"
proof (induction n arbitrary: w)
  case 0
  then show ?case by simp
next
  case (Suc n)
  from Suc.prems have s: "received (flow_state (iteration T j c m w)) = Some x"
    by (rule iteration_received_stable)
  show ?case
  proof (cases "iteration T j c m w")
    case (Continue w')
    with s have "received w' = Some x" by simp
    then show ?thesis using Continue Suc.IH by simp
  next
    case (Return w')
    with s show ?thesis by simp
  next
    case (Stuck w')
    with s show ?thesis by simp
  qed
qed

lemma in_flight_run:
  assumes "\<forall>i<k. in_flight_ok (T j (polls w + i))"
    and "\<forall>i. 1 \<le> i \<and> i \<le> k \<longrightarrow> \<not> (sint (tryCount w + of_nat i) \<le> sint m \<and> m \<noteq> - 1)"
  shows "\<exists>w'. goroutine k T j c m w = Continue w' \<and> polls w' = polls w + k
           \<and> tryCount w' = tryCount w + of_nat k \<and> sleeps w' = sleeps w + k
           \<and> received w' = received w
           \<and> (0 < k \<longrightarrow> result w' = decoded (T j (polls w + k - 1)))"
  using assms
proof (induction k arbitrary: w)
  case 0
  then show ?case by simp
next
  case (Suc k)
  let ?w1 = "w\<lparr>polls := Suc (polls w), result := decoded (T j (polls w)),
                 tryCount := tryCount w + 1, sleeps := Suc (sleeps w)\<rparr>"
  from Suc.prems(1) have a: "in_flight_ok (T j (polls w))" by force
  from Suc.prems(2) have b: "\<not> (sint (tryCount w + 1) \<le> sint m \<and> m \<noteq> - 1)"
    by (metis Suc_le_mono le_numeral_extra(4) of_nat_1 zero_le One_nat_def)
  have it: "iteration T j c m w = Continue ?w1"
    using a b by (rule iteration_in_flight)
  have p1: "\<forall>i<k. in_flight_ok (T j (polls ?w1 + i))"
    using Suc.prems(1) by auto
  have p2: "\<forall>i. 1 \<le> i \<and> i \<le> k \<longrightarrow> \<not> (sint (tryCount ?w1 + of_nat i) \<le> sint m \<and> m \<noteq> - 1)"
  proof (intro allI impI)
    fix i assume "1 \<le> i \<and> i \<le> k"
    then have "1 \<le> Suc i \<and> Suc i \<le> Suc k" by simp
    with Suc.prems(2) have n: "\<not> (sint (tryCount w + of_nat (Suc i)) \<le> sint m \<and> m \<noteq> - 1)"
      by blast
    have e: "tryCount ?w1 + of_nat i = tryCount w + of_nat (Suc i)"
      by (simp add: ac_simps)
    show "\<not> (sint (tryCount ?w1 + of_nat i) \<le> sint m \<and> m \<noteq> - 1)"
      unfolding e by (rule n)
  qed
  from Suc.IH [OF p1 p2] obtain w' where
    w': "goroutine k T j c m ?w1 = Continue w'" "polls w' = polls ?w1 + k"
      "tryCount w' = tryCount ?w1 + of_nat k" "sleeps w' = sleeps ?w1 + k"
      "received w' = received ?w1"
      "0 < k \<longrightarrow> result w' = decoded (T j (polls ?w1 + k - 1))"
    by blast
  have r: "result w' = decoded (T j (polls w + Suc k - 1))"
  proof (cases k)
    case 0
    with w'(1) have "w' = ?w1" by simp
    then show ?thesis using 0 by simp
  next
    case (Suc k')
    with w'(6) show ?thesis by simp
  qed
  have "goroutine (Suc k) T j c m w = Continue w'"
    using it w'(1) by simp
  moreover have "polls w' = polls w + Suc k" "sleeps w' = sleeps w + Suc k"
    "received w' = received w"
    using w'(2,4,5) by simp_all
  moreover have "tryCount w' = tryCount w + of_nat (Suc k)"
    using w'(3) by (simp add: ac_simps)
  ultimately show ?case
    using r by blast
qed

lemma sint_of_nat_small:
  assumes "i < 2 ^ 63"
  shows "sint (of_nat i :: goint) = int i"
proof -
  have "int i < 2 ^ 63" using assms by (metis of_nat_less_numeral_power_cancel_iff)
  then have "signed_take_bit 63 (int i) = int i"
    by (intro signed_take_bit_int_eq_self) simp_all
  then show ?thesis
    by (simp add: signed_of_nat)
qed

lemma sint_wraps: "sint (of_nat (2 ^ 63) :: goint) = - (2 ^ 63)"
  by (simp add: signed_of_nat)

lemma sint_succ:
  assumes "0 \<le> sint (x :: goint)" and "sint x < 2 ^ 63 - 1"
  shows "sint (x + 1) = sint x + 1"
proof -
  have "signed_take_bit 63 (sint x + 1) = sint x + 1"
    using assms by (intro signed_take_bit_int_eq_self) simp_all
  then show ?thesis
    by (simp add: sint_word_add)
qed

lemma goroutine_Suc_received:
  assumes "received (flow_state (iteration T j c m w)) = Some x"
  shows "received (flow_state (goroutine (Suc f) T j c m w)) = Some x"
proof (cases "iteration T j c m w")
  case (Continue w')
  with assms have "received w' = Some x" by simp
  then have "received (flow_state (goroutine f T j c m w')) = Some x"
    by (rule goroutine_received_stable)
  then show ?thesis using Continue by simp
next
  case (Return w')
  with assms show ?thesis by simp
next
  case (Stuck w')
  with assms show ?thesis by simp
qed

lemma received_after_in_flight:
  assumes inflight: "\<forall>i<n. in_flight_ok (T j i)"
    and stop: "\<not> in_flight_ok (T j n)"
    and bound: "\<forall>i. 1 \<le> i \<and> i \<le> n \<longrightarrow> \<not> (sint (of_nat i :: goint) \<le> sint m \<and> m \<noteq> - 1)"
  shows "received (flow_state (watch fuel T j c m)) =
     (if fuel \<le> n then None else Some (decoded (T j n), first_error (T j n), Suc n))"
proof (cases "fuel \<le> n")
  case True
  have "\<forall>i<fuel. in_flight_ok (T j (polls watcher_init + i))"
    using inflight True by (simp add: watcher_init_def)
  moreover have "\<forall>i. 1 \<le> i \<and> i \<le> fuel \<longrightarrow>
      \<not> (sint (tryCount watcher_init + of_nat i) \<le> sint m \<and> m \<noteq> - 1)"
    using bound True by (auto simp: watcher_init_def)
  ultimately obtain w' where "goroutine fuel T j c m watcher_init = Continue w'"
    and "received w' = received watcher_init"
    using in_flight_run [of fuel T j watcher_init m c] by blast
  then show ?thesis
    using True by (simp add: watch_def watcher_init_def)
next
  case False
  then obtain f where fuel: "fuel = n + Suc f"
    by (metis add_Suc_right less_imp_Suc_add not_le)
  have "\<forall>i<n. in_flight_ok (T j (polls watcher_init + i))"
    using inflight by (simp add: watcher_init_def)
  moreover have "\<forall>i. 1 \<le> i \<and> i \<le> n \<longrightarrow>
      \<not> (sint (tryCount watcher_init + of_nat i) \<le> sint m \<and> m \<noteq> - 1)"
    using bound by (simp add: watcher_init_def)
  ultimately obtain w' where run: "goroutine n T j c m watcher_init = Continue w'"
    and p: "polls w' = polls watcher_init + n"
    and r: "received w' = received watcher_init"
    using in_flight_run [of n T j watcher_init m c] by blast
  from p have p': "polls w' = n" by (simp add: watcher_init_def)
  from r have r': "received w' = None" by (simp add: watcher_init_def)
  have "received (flow_state (iteration T j c m w')) =
      Some (decoded (T j (polls w')), first_error (T j (polls w')), Suc (polls w'))"
    using stop r' p' by (intro iteration_resolves) simp_all
  then have "received (flow_state (goroutine (Suc f) T j c m w')) =
      Some (decoded (T j n), first_error (T j n), Suc n)"
    unfolding p' by (rule goroutine_Suc_received)
  moreover have "watch fuel T j c m = goroutine (Suc f) T j c m w'"
    unfolding watch_def fuel goroutine_add run by simp
  ultimately show ?thesis
    using False by simp
qed

lemma iteration_unbounded_first_send:
  assumes "received w = None"
    and "received (flow_state (iteration T j c (- 1) w)) = Some (job, e, k)"
  shows "e \<noteq> Some (MaxTriesReached m)"
  using assms
  by (auto simp: iteration_def send_def Let_def split: option.splits if_splits)

lemma goroutine_unbounded_never_exhausted:
  assumes "received w = None"
    and "received (flow_state (goroutine n T j c (- 1) w)) = Some (job, e, k)"
  shows "e \<noteq> Some (MaxTriesReached m)"
  using assms
proof (induction n arbitrary: w)
  case 0
  then show ?case by simp
next
  case (Suc n)
  show ?case
  proof (cases "received (flow_state (iteration T j c (- 1) w))")
    case None
    show ?thesis
    proof (cases "iteration T j c (- 1) w")
      case (Continue w')
      with None Suc.prems(2) Suc.IH [of w'] show ?thesis by simp
    next
      case (Return w')
      with None Suc.prems(2) show ?thesis by simp
    next
      case (Stuck w')
      with None Suc.prems(2) show ?thesis by simp
    qed
  next
    case (Some x)
    then have "received (flow_state (goroutine (Suc n) T j c (- 1) w)) = Some x"
      by (rule goroutine_Suc_received)
    with Suc.prems(2) have "x = (job, e, k)" by simp
    with Some Suc.prems(1) show ?thesis
      using iteration_unbounded_first_send by blast
  qed
qed

lemma iteration_zero_like_unbounded:
  assumes "0 \<le> sint (tryCount w)" and "sint (tryCount w) < 2 ^ 63 - 1"
  shows "iteration T j c 0 w = iteration T j c (- 1) w"
proof -
  have "sint (tryCount w + 1) = sint (tryCount w) + 1"
    using assms by (rule sint_succ)
  then have "\<not> sint (tryCount w + 1) \<le> 0" using assms(1) by simp
  then show ?thesis
    by (auto simp: iteration_def send_def Let_def split: option.splits)
qed

lemma iteration_Continue_tryCount:
  "iteration T j c m w = Continue w' \<Longrightarrow> tryCount w' = tryCount w + 1"
  by (auto simp: iteration_def send_def Let_def split: option.splits if_splits)

lemma goroutine_zero_like_unbounded:
  assumes "0 \<le> sint (tryCount w)" and "sint (tryCount w) + int n < 2 ^ 63"
  shows "goroutine n T j c 0 w = goroutine n T j c (- 1) w"
  using assms
proof (induction n arbitrary: w)
  case 0
  then show ?case by simp
next
  case (Suc n)
  from Suc.prems have lt: "sint (tryCount w) < 2 ^ 63 - 1" by simp
  with Suc.prems(1) have it: "iteration T j c 0 w = iteration T j c (- 1) w"
    by (rule iteration_zero_like_unbounded)
  show ?case
  proof (cases "iteration T j c (- 1) w")
    case (Continue w')
    then have "tryCount w' = tryCount w + 1" by (rule iteration_Continue_tryCount)
    moreover have "sint (tryCount w + 1) = sint (tryCount w) + 1"
      using Suc.prems(1) lt by (rule sint_succ)
    ultimately have "0 \<le> sint (tryCount w')" "sint (tryCount w') + int n < 2 ^ 63"
      using Suc.prems by simp_all
    then have "goroutine n T j c 0 w' = goroutine n T j c (- 1) w'"
      by (rule Suc.IH)
    then show ?thesis using it Continue by simp
  next
    case (Return w')
    then show ?thesis using it by simp
  next
    case (Stuck w')
    then show ?thesis using it by simp
  qed
qed

lemma zero_bound_small:
  assumes "n < 2 ^ 63"
  shows "\<forall>i. 1 \<le> i \<and> i \<le> n \<longrightarrow> \<not> (sint (of_nat i :: goint) \<le> sint (0 :: goint) \<and> (0 :: goint) \<noteq> - 1)"
proof (intro allI impI)
  fix i assume i: "1 \<le> i \<and> i \<le> n"
  then have "i < 2 ^ 63" using assms by simp
  then have "sint (of_nat i :: goint) = int i" by (rule sint_of_nat_small)
  then show "\<not> (sint (of_nat i :: goint) \<le> sint (0 :: goint) \<and> (0 :: goint) \<noteq> - 1)"
    using i by simp
qed

lemma iteration_no_Return_after_delivery:
  "received w = Some x \<Longrightarrow> iteration T j c m w \<noteq> Return w'"
  by (auto simp: iteration_def send_def Let_def split: option.splits)

lemma goroutine_no_Return_after_delivery:
  "received w = Some x \<Longrightarrow> goroutine n T j c m w \<noteq> Return w'"
proof (induction n arbitrary: w)
  case 0
  then show ?case by simp
next
  case (Suc n)
  show ?case
  proof (cases "iteration T j c m w")
    case (Continue w1)
    from Suc.prems have "received (flow_state (iteration T j c m w)) = Some x"
      by (rule iteration_received_stable)
    with Continue have "received w1 = Some x" by simp
    then have "goroutine n T j c m w1 \<noteq> Return w'" by (rule Suc.IH)
    then show ?thesis using Continue by simp
  next
    case (Return w1)
    with Suc.prems show ?thesis
      using iteration_no_Return_after_delivery by blast
  next
    case (Stuck w1)
    then show ?thesis by simp
  qed
qed

lemma requester_error_first_pass:
  assumes "getjson_err (T j (polls w)) = Some e" and "received w = None"
  shows "received (flow_state (iteration T j c m w)) =
           Some (decoded (T j (polls w)), Some (RequesterError e), Suc (polls w))
         \<and> iteration T j c m w \<noteq> Return w'"
  using assms
  by (auto simp: iteration_def send_def Let_def split: option.splits)

lemma requester_error_goroutine_never_returns:
  assumes "getjson_err (T j 0) = Some e"
  shows "DefaultJobHandler (Suc n) T j c m = Some (decoded (T j 0), Some (RequesterError e))
         \<and> watch (Suc n) T j c m \<noteq> Return w'"
proof -
  have p: "polls watcher_init = 0" "received watcher_init = None"
    by (simp_all add: watcher_init_def)
  from requester_error_first_pass [of T j watcher_init e c m w'] assms p
  have r: "received (flow_state (iteration T j c m watcher_init)) =
           Some (decoded (T j 0), Some (RequesterError e), Suc 0)"
    and nr: "iteration T j c m watcher_init \<noteq> Return w'"
    by simp_all
  from r have "received (flow_state (goroutine (Suc n) T j c m watcher_init)) =
           Some (decoded (T j 0), Some (RequesterError e), Suc 0)"
    by (rule goroutine_Suc_received)
  then have a: "DefaultJobHandler (Suc n) T j c m = Some (decoded (T j 0), Some (RequesterError e))"
    by (simp add: DefaultJobHandler_def watch_def)
  have b: "watch (Suc n) T j c m \<noteq> Return w'"
  proof (cases "iteration T j c m watcher_init")
    case (Continue w1)
    with r have "received w1 = Some (decoded (T j 0), Some (RequesterError e), Suc 0)" by simp
    then have "goroutine n T j c m w1 \<noteq> Return w'"
      by (rule goroutine_no_Return_after_delivery)
    then show ?thesis using Continue by (simp add: watch_def)
  next
    case (Return w1)
    with r show ?thesis
      using requester_error_first_pass [of T j watcher_init e c m w1] assms p by simp
  next
    case (Stuck w1)
    then show ?thesis by (simp add: watch_def)
  qed
  from a b show ?thesis ..
qed

lemma response_error_returns:
  assumes "getjson_err (T j (polls w)) = None" and "checkresponse_err (T j (polls w)) = Some e"
    and "received w = None"
  shows "iteration T j c m w =
     Return (w\<lparr>polls := Suc (polls w), result := decoded (T j (polls w)),
               received := Some (decoded (T j (polls w)), Some (ResponseError e), Suc (polls w))\<rparr>)"
  using assms by (simp add: iteration_def send_def Let_def)

lemma CreateJobTemplate_complete_payload:
  assumes "\<forall>f \<in> set mandatoryFields. data f \<noteq> None" and "Marshal data = Inr payload"
  shows "requests (CreateJobTemplate Marshal PostJSON data params) =
     [(''/api/v2/workflow_job_templates/'', payload, params)]"
  using assms
  by (auto simp: CreateJobTemplate_def ValidateParams_def Let_def filter_empty_conv
      split: option.splits)

text \<open>
  The test of line 135 for a bound of at least 1: the incremented \<open>tryCount\<close> is 1 after
  the first in-flight reply, \<open>1 <= maxtries\<close> holds, and the pass sends the error of
  line 136 and returns, whatever the later replies would have been.
\<close>

lemma positive_bound_gives_up_at_first_in_flight:
  assumes "1 \<le> sint maxtries" and "in_flight_ok (T jobid 0)"
  shows "watch (Suc n) T jobid checkInterval maxtries =
      Return \<lparr>polls = 1, tryCount = 1, result = decoded (T jobid 0), sleeps = 0,
        received = Some (decoded (T jobid 0), Some (MaxTriesReached maxtries), 1)\<rparr>"
proof -
  have "maxtries \<noteq> - 1" using assms(1) by auto
  then show ?thesis
    using assms
    by (auto simp: watch_def watcher_init_def iteration_def send_def in_flight_ok_def Let_def)
qed

section \<open>The claims about DefaultJobHandler\<close>

text \<open>
  C1. The claim: when the polled statuses end in a terminal status within the attempt
  bound, the watcher resolves with that terminal snapshot and no error; with bound 5 and
  replies running, running, successful for job 7 the outcome is the successful snapshot
  after exactly 3 polls. The code does otherwise at that input: after the first reply
  \<open>tryCount\<close> is 1, the test \<open>tryCount <= maxtries\<close> of line 135 holds (1 \<le> 5), and the
  watcher resolves with the error of line 136 and the running snapshot, after one poll,
  whatever number of passes the goroutine is given.
\<close>

theorem C1_bound5_gives_up_after_first_poll:
  "DefaultJobHandler (Suc n)
      (script [ok_reply 7 RUNNING, ok_reply 7 RUNNING, ok_reply 7 SUCCESSFUL]
         (ok_reply 7 SUCCESSFUL)) 7 1 5
     = Some (\<lparr>ID = 7, Status = ''running'', Metadata = []\<rparr>, Some (MaxTriesReached 5))
   \<and> polls_at_outcome (Suc n)
      (script [ok_reply 7 RUNNING, ok_reply 7 RUNNING, ok_reply 7 SUCCESSFUL]
         (ok_reply 7 SUCCESSFUL)) 7 1 5 = Some 1"
  by (simp add: DefaultJobHandler_def polls_at_outcome_def watch_def watcher_init_def
      script_def ok_reply_def iteration_def send_def JobStatus_defs Let_def)

text \<open>
  C2. The claim: for every finite attempt bound and every run of in-flight statuses longer
  than the bound, the watcher resolves with the attempts-exhausted error carrying the
  last observed snapshot, and the bound on the number of polls is respected. The code
  does otherwise for the bound 0: against a transport that always answers ``running'',
  the incremented \<open>tryCount\<close> is at least 1, the test \<open>tryCount <= maxtries\<close> of line 135
  fails in every pass, and after three passes the goroutine has issued three requests,
  has slept three times, is still looping, and the caller has received nothing.
\<close>

theorem C2_zero_bound_never_exhausts:
  "watch 3 (script [] (ok_reply 7 RUNNING)) 7 1 0 =
     Continue \<lparr>polls = 3, tryCount = 3,
       result = \<lparr>ID = 7, Status = ''running'', Metadata = []\<rparr>, sleeps = 3,
       received = None\<rparr>
   \<and> DefaultJobHandler 3 (script [] (ok_reply 7 RUNNING)) 7 1 0 = None"
  by (simp add: DefaultJobHandler_def watch_def watcher_init_def
      script_def ok_reply_def iteration_def send_def JobStatus_defs Let_def numeral_3_eq_3)

text \<open>
  C3. The claim: a poll failure resolves the watch with that error at once, and no further
  poll is performed. The code does so for an error of \<open>CheckResponse\<close> (lemma
  \<open>response_error_returns\<close>), but not for an error of \<open>GetJSON\<close>: line 123 sends the error
  and the loop goes on. With the unbounded sentinel, a second request that fails in
  \<open>GetJSON\<close> while \<open>CheckResponse\<close> accepts the response and \<open>*result\<close> still says
  ``running'' hands the error to the caller at the second poll, and the goroutine then
  issues a third request and is still looping.
\<close>

theorem C3_requester_error_then_more_polls:
  "watch 3
     (script [ok_reply 7 RUNNING,
        \<lparr>decoded = \<lparr>ID = 7, Status = ''running'', Metadata = []\<rparr>,
         getjson_err = Some ''timeout'', checkresponse_err = None\<rparr>] (ok_reply 7 RUNNING))
     7 1 (- 1) =
     Continue \<lparr>polls = 3, tryCount = 3,
       result = \<lparr>ID = 7, Status = ''running'', Metadata = []\<rparr>, sleeps = 3,
       received = Some (\<lparr>ID = 7, Status = ''running'', Metadata = []\<rparr>,
                        Some (RequesterError ''timeout''), 2)\<rparr>"
  by (simp add: watch_def watcher_init_def
      script_def ok_reply_def iteration_def send_def JobStatus_defs Let_def numeral_3_eq_3)

text \<open>
  C4. With the unbounded sentinel \<open>maxtries = -1\<close> the watcher never resolves with the
  attempts-exhausted error, whatever the transport answers and however long it runs.
  When the first \<open>n\<close> replies are in flight and the next one is not (a terminal status or
  a failed poll), the caller is still waiting after up to \<open>n\<close> passes and has its outcome
  from pass \<open>n + 1\<close> on: the snapshot of that reply, after exactly \<open>n + 1\<close> polls, with the
  error of the failed call, and with no error when both calls succeeded.
\<close>

theorem C4_unbounded_resolves_only_at_stop:
  "(\<forall>job m. DefaultJobHandler fuel T jobid checkInterval (- 1) \<noteq> Some (job, Some (MaxTriesReached m)))
   \<and> ((\<forall>i<n. in_flight_ok (T jobid i)) \<and> \<not> in_flight_ok (T jobid n) \<longrightarrow>
        DefaultJobHandler fuel T jobid checkInterval (- 1) =
          (if fuel \<le> n then None else Some (decoded (T jobid n), first_error (T jobid n)))
        \<and> polls_at_outcome fuel T jobid checkInterval (- 1) =
          (if fuel \<le> n then None else Some (Suc n))
        \<and> (getjson_err (T jobid n) = None \<and> checkresponse_err (T jobid n) = None
             \<longrightarrow> first_error (T jobid n) = None))"
proof (intro conjI allI impI)
  fix job m
  show "DefaultJobHandler fuel T jobid checkInterval (- 1) \<noteq> Some (job, Some (MaxTriesReached m))"
  proof
    assume "DefaultJobHandler fuel T jobid checkInterval (- 1) = Some (job, Some (MaxTriesReached m))"
    then obtain k where
      "received (flow_state (goroutine fuel T jobid checkInterval (- 1) watcher_init)) =
         Some (job, Some (MaxTriesReached m), k)"
      by (auto simp: DefaultJobHandler_def watch_def split: option.splits)
    moreover have "received watcher_init = None" by (simp add: watcher_init_def)
    ultimately show False
      using goroutine_unbounded_never_exhausted by blast
  qed
next
  assume h: "(\<forall>i<n. in_flight_ok (T jobid i)) \<and> \<not> in_flight_ok (T jobid n)"
  have b: "\<forall>i. 1 \<le> i \<and> i \<le> n \<longrightarrow> \<not> (sint (of_nat i :: goint) \<le> sint (- 1 :: goint) \<and> (- 1 :: goint) \<noteq> - 1)"
    by simp
  have r: "received (flow_state (watch fuel T jobid checkInterval (- 1))) =
     (if fuel \<le> n then None else Some (decoded (T jobid n), first_error (T jobid n), Suc n))"
    using h b by (intro received_after_in_flight) simp_all
  show "DefaultJobHandler fuel T jobid checkInterval (- 1) =
          (if fuel \<le> n then None else Some (decoded (T jobid n), first_error (T jobid n)))"
    by (simp add: DefaultJobHandler_def r)
  show "polls_at_outcome fuel T jobid checkInterval (- 1) =
          (if fuel \<le> n then None else Some (Suc n))"
    by (simp add: polls_at_outcome_def r)
next
  assume "getjson_err (T jobid n) = None \<and> checkresponse_err (T jobid n) = None"
  then show "first_error (T jobid n) = None"
    by (simp add: first_error_def)
qed

theorem C4_unbounded_resolves_only_at_stop_witness:
  "in_flight_ok
       (script [ok_reply 7 RUNNING, ok_reply 7 PENDING, ok_reply 7 SUCCESSFUL]
          (ok_reply 7 SUCCESSFUL) 7 0)
   \<and> in_flight_ok
       (script [ok_reply 7 RUNNING, ok_reply 7 PENDING, ok_reply 7 SUCCESSFUL]
          (ok_reply 7 SUCCESSFUL) 7 1)
   \<and> \<not> in_flight_ok
       (script [ok_reply 7 RUNNING, ok_reply 7 PENDING, ok_reply 7 SUCCESSFUL]
          (ok_reply 7 SUCCESSFUL) 7 2)
   \<and> DefaultJobHandler 2
       (script [ok_reply 7 RUNNING, ok_reply 7 PENDING, ok_reply 7 SUCCESSFUL]
          (ok_reply 7 SUCCESSFUL)) 7 1 (- 1) = None
   \<and> DefaultJobHandler 3
       (script [ok_reply 7 RUNNING, ok_reply 7 PENDING, ok_reply 7 SUCCESSFUL]
          (ok_reply 7 SUCCESSFUL)) 7 1 (- 1) =
       Some (\<lparr>ID = 7, Status = ''successful'', Metadata = []\<rparr>, None)
   \<and> polls_at_outcome 3
       (script [ok_reply 7 RUNNING, ok_reply 7 PENDING, ok_reply 7 SUCCESSFUL]
          (ok_reply 7 SUCCESSFUL)) 7 1 (- 1) = Some 3"
proof -
  let ?T = "script [ok_reply 7 RUNNING, ok_reply 7 PENDING, ok_reply 7 SUCCESSFUL]
          (ok_reply 7 SUCCESSFUL)"
  have a: "\<forall>i<2. in_flight_ok (?T 7 i)"
    by (simp add: script_def ok_reply_def in_flight_ok_def JobStatus_defs
        numeral_2_eq_2 less_Suc_eq)
  have a': "in_flight_ok (?T 7 0)" "in_flight_ok (?T 7 1)"
    using a by simp_all
  have b: "\<not> in_flight_ok (?T 7 2)"
    by (simp add: script_def ok_reply_def in_flight_ok_def JobStatus_defs)
  have c: "decoded (?T 7 2) = \<lparr>ID = 7, Status = ''successful'', Metadata = []\<rparr>"
    "first_error (?T 7 2) = None"
    by (simp_all add: script_def ok_reply_def first_error_def JobStatus_defs)
  show ?thesis
    using a a' b c C4_unbounded_resolves_only_at_stop [of 2 ?T 7 1 2]
      C4_unbounded_resolves_only_at_stop [of 3 ?T 7 1 2]
    by simp
qed

text \<open>
  C8. The claim: one outcome is delivered, the channel is written at most once, and no
  polling loop is left behind once the caller has its outcome. When \<open>GetJSON\<close> fails,
  line 123 sends the error and, having no \<open>return\<close>, the goroutine goes on: when
  \<open>CheckResponse\<close> fails as well it reaches the send of line 127, a second write to the
  channel that nobody will receive, and stays blocked there for ever (lemma
  \<open>requester_error_goroutine_never_returns\<close> says that it never returns, whatever the
  replies are).
\<close>

theorem C8_requester_error_leaves_goroutine_blocked:
  "watch (Suc n)
     (script [] \<lparr>decoded = Job_zero, getjson_err = Some ''connection refused'',
        checkresponse_err = Some ''no response''\<rparr>) 7 1 5 =
     Stuck \<lparr>polls = 1, tryCount = 0, result = Job_zero, sleeps = 0,
       received = Some (Job_zero, Some (RequesterError ''connection refused''), 1)\<rparr>"
  by (simp add: watch_def watcher_init_def script_def iteration_def send_def Let_def)

text \<open>
  C9, as stated, fails: \<open>tryCount\<close> is a 64-bit integer. Against a transport that always
  answers ``running'', the increment of pass \<open>2 ^ 63\<close> wraps to the least integer, the test
  \<open>tryCount <= 0\<close> holds, and, 0 not being the sentinel, the watcher resolves with the
  attempts-exhausted error.
\<close>

theorem C9_zero_bound_counterexample:
  "DefaultJobHandler (2 ^ 63) (script [] (ok_reply 7 RUNNING)) 7 0 0 =
     Some (\<lparr>ID = 7, Status = ''running'', Metadata = []\<rparr>, Some (MaxTriesReached 0))"
proof -
  let ?T = "script [] (ok_reply 7 RUNNING)"
  let ?k = "2 ^ 63 - 1 :: nat"
  have a: "\<forall>i<?k. in_flight_ok (?T 7 (polls watcher_init + i))"
    by (simp add: script_def ok_reply_def in_flight_ok_def)
  have b: "\<forall>i. 1 \<le> i \<and> i \<le> ?k \<longrightarrow>
      \<not> (sint (tryCount watcher_init + of_nat i) \<le> sint (0 :: goint) \<and> (0 :: goint) \<noteq> - 1)"
    using zero_bound_small [of ?k] by (simp add: watcher_init_def)
  from in_flight_run [of ?k ?T 7 watcher_init 0 0] a b obtain w' where
    run: "goroutine ?k ?T 7 0 0 watcher_init = Continue w'"
    and t: "tryCount w' = tryCount watcher_init + of_nat ?k"
    and r: "received w' = received watcher_init"
    by blast
  have t': "tryCount w' + 1 = of_nat (2 ^ 63)"
    using t by (simp add: watcher_init_def)
  have neg: "sint (tryCount w' + 1) \<le> 0"
    unfolding t' sint_wraps by simp
  have r': "received w' = None" using r by (simp add: watcher_init_def)
  have it: "received (flow_state (iteration ?T 7 0 0 w')) =
      Some (\<lparr>ID = 7, Status = ''running'', Metadata = []\<rparr>, Some (MaxTriesReached 0), Suc (polls w'))"
    using neg r'
    by (simp add: iteration_def script_def ok_reply_def send_def Let_def JobStatus_defs)
  have "(2 ^ 63 :: nat) = ?k + Suc 0" by simp
  then have "watch (2 ^ 63) ?T 7 0 0 = goroutine (?k + Suc 0) ?T 7 0 0 watcher_init"
    unfolding watch_def by (simp only:)
  also have "\<dots> = goroutine (Suc 0) ?T 7 0 0 w'"
    unfolding goroutine_add run by simp
  finally have "received (flow_state (watch (2 ^ 63) ?T 7 0 0)) =
      Some (\<lparr>ID = 7, Status = ''running'', Metadata = []\<rparr>, Some (MaxTriesReached 0), Suc (polls w'))"
    using goroutine_Suc_received [OF it, of 0] by (simp only:)
  then show ?thesis
    by (simp add: DefaultJobHandler_def)
qed

text \<open>
  C9, amended: with \<open>maxtries = 0\<close> the goroutine does in each of its first \<open>2 ^ 63 - 1\<close>
  passes what it does with the unbounded sentinel, so the attempts-exhausted error is
  never the outcome there; and when fewer than \<open>2 ^ 63\<close> in-flight replies are followed by
  a reply that is not in flight, the watcher resolves at that reply exactly, with its
  snapshot and the error of the failed call, if any.
\<close>

theorem C9_zero_bound_like_unbounded:
  "(fuel < 2 ^ 63 \<longrightarrow>
      watch fuel T jobid checkInterval 0 = watch fuel T jobid checkInterval (- 1)
      \<and> (\<forall>job m. DefaultJobHandler fuel T jobid checkInterval 0 \<noteq> Some (job, Some (MaxTriesReached m))))
   \<and> (n < 2 ^ 63 \<and> (\<forall>i<n. in_flight_ok (T jobid i)) \<and> \<not> in_flight_ok (T jobid n) \<longrightarrow>
        DefaultJobHandler fuel T jobid checkInterval 0 =
          (if fuel \<le> n then None else Some (decoded (T jobid n), first_error (T jobid n)))
        \<and> polls_at_outcome fuel T jobid checkInterval 0 =
          (if fuel \<le> n then None else Some (Suc n)))"
proof (intro conjI impI)
  assume f: "fuel < 2 ^ 63"
  then have "int fuel < 2 ^ 63" by (metis of_nat_less_numeral_power_cancel_iff)
  then have "sint (tryCount watcher_init) + int fuel < 2 ^ 63"
    by (simp add: watcher_init_def)
  moreover have "0 \<le> sint (tryCount watcher_init)" by (simp add: watcher_init_def)
  ultimately have g: "goroutine fuel T jobid checkInterval 0 watcher_init =
      goroutine fuel T jobid checkInterval (- 1) watcher_init"
    by (intro goroutine_zero_like_unbounded)
  then show e: "watch fuel T jobid checkInterval 0 = watch fuel T jobid checkInterval (- 1)"
    by (simp add: watch_def)
  show "\<forall>job m. DefaultJobHandler fuel T jobid checkInterval 0 \<noteq> Some (job, Some (MaxTriesReached m))"
  proof (intro allI notI)
    fix job m
    assume "DefaultJobHandler fuel T jobid checkInterval 0 = Some (job, Some (MaxTriesReached m))"
    then obtain k where
      "received (flow_state (goroutine fuel T jobid checkInterval (- 1) watcher_init)) =
         Some (job, Some (MaxTriesReached m), k)"
      unfolding DefaultJobHandler_def watch_def g by (auto split: option.splits)
    moreover have "received watcher_init = None" by (simp add: watcher_init_def)
    ultimately show False
      using goroutine_unbounded_never_exhausted by blast
  qed
next
  assume h: "n < 2 ^ 63 \<and> (\<forall>i<n. in_flight_ok (T jobid i)) \<and> \<not> in_flight_ok (T jobid n)"
  then have b: "\<forall>i. 1 \<le> i \<and> i \<le> n \<longrightarrow> \<not> (sint (of_nat i :: goint) \<le> sint (0 :: goint) \<and> (0 :: goint) \<noteq> - 1)"
    by (intro zero_bound_small) simp
  have r: "received (flow_state (watch fuel T jobid checkInterval 0)) =
     (if fuel \<le> n then None else Some (decoded (T jobid n), first_error (T jobid n), Suc n))"
    using h b by (intro received_after_in_flight) simp_all
  show "DefaultJobHandler fuel T jobid checkInterval 0 =
          (if fuel \<le> n then None else Some (decoded (T jobid n), first_error (T jobid n)))"
    by (simp add: DefaultJobHandler_def r)
  show "polls_at_outcome fuel T jobid checkInterval 0 =
          (if fuel \<le> n then None else Some (Suc n))"
    by (simp add: polls_at_outcome_def r)
qed

theorem C9_zero_bound_like_unbounded_witness:
  "(4 :: nat) < 2 ^ 63 \<and> (2 :: nat) < 2 ^ 63
   \<and> in_flight_ok
        (script [ok_reply 7 RUNNING, ok_reply 7 WAITING, ok_reply 7 FAILED]
           (ok_reply 7 FAILED) 7 0)
   \<and> in_flight_ok
        (script [ok_reply 7 RUNNING, ok_reply 7 WAITING, ok_reply 7 FAILED]
           (ok_reply 7 FAILED) 7 1)
   \<and> \<not> in_flight_ok
        (script [ok_reply 7 RUNNING, ok_reply 7 WAITING, ok_reply 7 FAILED]
           (ok_reply 7 FAILED) 7 2)
   \<and> watch 4
        (script [ok_reply 7 RUNNING, ok_reply 7 WAITING, ok_reply 7 FAILED]
           (ok_reply 7 FAILED)) 7 1 0 =
      watch 4
        (script [ok_reply 7 RUNNING, ok_reply 7 WAITING, ok_reply 7 FAILED]
           (ok_reply 7 FAILED)) 7 1 (- 1)
   \<and> DefaultJobHandler 4
        (script [ok_reply 7 RUNNING, ok_reply 7 WAITING, ok_reply 7 FAILED]
           (ok_reply 7 FAILED)) 7 1 0 =
      Some (\<lparr>ID = 7, Status = ''failed'', Metadata = []\<rparr>, None)"
proof -
  let ?T = "script [ok_reply 7 RUNNING, ok_reply 7 WAITING, ok_reply 7 FAILED]
      (ok_reply 7 FAILED)"
  have a: "\<forall>i<2. in_flight_ok (?T 7 i)"
    by (simp add: script_def ok_reply_def in_flight_ok_def JobStatus_defs
        numeral_2_eq_2 less_Suc_eq)
  have a': "in_flight_ok (?T 7 0)" "in_flight_ok (?T 7 1)"
    using a by simp_all
  have b: "\<not> in_flight_ok (?T 7 2)"
    by (simp add: script_def ok_reply_def in_flight_ok_def JobStatus_defs)
  have c: "decoded (?T 7 2) = \<lparr>ID = 7, Status = ''failed'', Metadata = []\<rparr>"
    "first_error (?T 7 2) = None"
    by (simp_all add: script_def ok_reply_def first_error_def JobStatus_defs)
  have d: "(2 :: nat) < 2 ^ 63" "(4 :: nat) < 2 ^ 63" by simp_all
  show ?thesis
    using a a' b c d C9_zero_bound_like_unbounded [of 4 ?T 7 1 2]
    by simp
qed

text \<open>
  C10. Whenever both calls of a poll succeed and the status is any string other than
  ``pending'', ``waiting'' and ``running'' (the empty string and unknown statuses
  included), the pass sends \<open>nil\<close> and returns: the watcher resolves with that snapshot and
  no error. This holds at every pass in which the caller is still waiting, and so for the
  first reply and every bound.
\<close>

theorem C10_other_status_is_terminal:
  "(getjson_err (T jobid (polls w)) = None \<and> checkresponse_err (T jobid (polls w)) = None
    \<and> Status (decoded (T jobid (polls w))) \<noteq> ''pending''
    \<and> Status (decoded (T jobid (polls w))) \<noteq> ''waiting''
    \<and> Status (decoded (T jobid (polls w))) \<noteq> ''running''
    \<and> received w = None \<longrightarrow>
      iteration T jobid checkInterval maxtries w =
        Return (w\<lparr>polls := Suc (polls w), result := decoded (T jobid (polls w)),
                  received := Some (decoded (T jobid (polls w)), None, Suc (polls w))\<rparr>))
   \<and> (getjson_err (T jobid 0) = None \<and> checkresponse_err (T jobid 0) = None
    \<and> Status (decoded (T jobid 0)) \<noteq> ''pending''
    \<and> Status (decoded (T jobid 0)) \<noteq> ''waiting''
    \<and> Status (decoded (T jobid 0)) \<noteq> ''running'' \<longrightarrow>
      DefaultJobHandler (Suc n) T jobid checkInterval maxtries = Some (decoded (T jobid 0), None)
      \<and> polls_at_outcome (Suc n) T jobid checkInterval maxtries = Some 1)"
  by (auto simp: iteration_def send_def Let_def JobStatus_defs DefaultJobHandler_def
      polls_at_outcome_def watch_def watcher_init_def)

theorem C10_other_status_is_terminal_witness:
  "DefaultJobHandler 1 (script [] (ok_reply 7 [])) 7 1 5 =
     Some (\<lparr>ID = 7, Status = [], Metadata = []\<rparr>, None)
   \<and> DefaultJobHandler 1 (script [] (ok_reply 7 ''Running'')) 7 1 5 =
     Some (\<lparr>ID = 7, Status = ''Running'', Metadata = []\<rparr>, None)
   \<and> iteration (script [] (ok_reply 7 ''unknown'')) 7 1 5 watcher_init =
     Return \<lparr>polls = 1, tryCount = 0, result = \<lparr>ID = 7, Status = ''unknown'', Metadata = []\<rparr>,
       sleeps = 0,
       received = Some (\<lparr>ID = 7, Status = ''unknown'', Metadata = []\<rparr>, None, 1)\<rparr>"
  using C10_other_status_is_terminal [of "script [] (ok_reply 7 [])" 7 watcher_init 1 5 0]
    C10_other_status_is_terminal [of "script [] (ok_reply 7 ''Running'')" 7 watcher_init 1 5 0]
    C10_other_status_is_terminal [of "script [] (ok_reply 7 ''unknown'')" 7 watcher_init 1 5 0]
  by (simp add: script_def ok_reply_def watcher_init_def)

section \<open>The claims about Launch and CreateJobTemplate\<close>

text \<open>
  The scenario of C1 seen from \<open>Launch\<close>: template 42 launches job 7, and the default
  handler is called once with the interval 1 and the bound 5.
\<close>

lemma Launch_with_DefaultJobHandler_bound5:
  "Launch (\<lambda>t. \<lparr>launch_err = None, launch_check = None,
             launch_decoded = \<lparr>WorkflowJob = 7\<rparr>\<rparr>) 42
     (DefaultJobHandler_as_handler (Suc n)
        (script [ok_reply 7 RUNNING, ok_reply 7 RUNNING, ok_reply 7 SUCCESSFUL]
           (ok_reply 7 SUCCESSFUL))) 1 5 =
     \<lparr>returned = Some (Some \<lparr>WorkflowJob = 7\<rparr>,
                       Some \<lparr>ID = 7, Status = ''running'', Metadata = []\<rparr>,
                       Some (MaxTriesReached 5)),
      handler_calls = [(7, 1, 5)]\<rparr>"
  by (simp add: Launch_def DefaultJobHandler_as_handler_def DefaultJobHandler_def watch_def
      watcher_init_def script_def ok_reply_def iteration_def send_def JobStatus_defs Let_def)

text \<open>
  C5. When the launch acknowledgment carries job id 0, \<open>Launch\<close> returns an error and no
  result, and makes no call of the handler; when the request itself succeeded the error
  is the one of line 89.
\<close>

theorem C5_zero_job_id_no_handler:
  "WorkflowJob (launch_decoded (PostJSON id')) = 0 \<longrightarrow>
     (\<exists>e. returned (Launch PostJSON id' jobHanlder jobCheckInterval jobCheckmaxtries) =
            Some (None, None, Some e))
     \<and> handler_calls (Launch PostJSON id' jobHanlder jobCheckInterval jobCheckmaxtries) = []
     \<and> (launch_err (PostJSON id') = None \<and> launch_check (PostJSON id') = None \<longrightarrow>
          returned (Launch PostJSON id' jobHanlder jobCheckInterval jobCheckmaxtries) =
            Some (None, None, Some InvalidJobId0))"
  by (auto simp: Launch_def Let_def split: option.splits)

theorem C5_zero_job_id_no_handler_witness:
  "WorkflowJob (launch_decoded
       ((\<lambda>t. \<lparr>launch_err = None, launch_check = None,
               launch_decoded = \<lparr>WorkflowJob = 0\<rparr>\<rparr>) (42 :: goint))) = 0
   \<and> Launch (\<lambda>t. \<lparr>launch_err = None, launch_check = None,
               launch_decoded = \<lparr>WorkflowJob = 0\<rparr>\<rparr>) 42
        (\<lambda>jobid i m. Some (Some Job_zero, None)) 1 5 =
      \<lparr>returned = Some (None, None, Some InvalidJobId0), handler_calls = []\<rparr>"
  using C5_zero_job_id_no_handler
    [of "\<lambda>t. \<lparr>launch_err = None, launch_check = None, launch_decoded = \<lparr>WorkflowJob = 0\<rparr>\<rparr>"
        42 "\<lambda>jobid i m. Some (Some Job_zero, None)" 1 5]
  by simp

text \<open>
  C7. When the launch succeeded with a job id other than 0, \<open>Launch\<close> calls the handler
  once, with that job id and the interval and bound it was given, and returns the
  acknowledgment together with the handler's job and error as they are; when the handler
  does not return, neither does \<open>Launch\<close>.
\<close>

theorem C7_launch_returns_handler_result:
  "launch_err (PostJSON id') = None \<and> launch_check (PostJSON id') = None
   \<and> WorkflowJob (launch_decoded (PostJSON id')) \<noteq> 0 \<longrightarrow>
     handler_calls (Launch PostJSON id' jobHanlder jobCheckInterval jobCheckmaxtries) =
       [(WorkflowJob (launch_decoded (PostJSON id')), jobCheckInterval, jobCheckmaxtries)]
     \<and> (\<forall>jobresult err.
          jobHanlder (WorkflowJob (launch_decoded (PostJSON id'))) jobCheckInterval
              jobCheckmaxtries = Some (jobresult, err) \<longrightarrow>
          returned (Launch PostJSON id' jobHanlder jobCheckInterval jobCheckmaxtries) =
            Some (Some (launch_decoded (PostJSON id')), jobresult, err))
     \<and> (jobHanlder (WorkflowJob (launch_decoded (PostJSON id'))) jobCheckInterval
              jobCheckmaxtries = None \<longrightarrow>
          returned (Launch PostJSON id' jobHanlder jobCheckInterval jobCheckmaxtries) = None)"
  by (auto simp: Launch_def Let_def split: option.splits)

theorem C7_launch_returns_handler_result_witness:
  "Launch (\<lambda>t. \<lparr>launch_err = None, launch_check = None,
               launch_decoded = \<lparr>WorkflowJob = 7\<rparr>\<rparr>) 42
        (\<lambda>jobid i m. Some (Some \<lparr>ID = jobid, Status = ''failed'', Metadata = []\<rparr>,
                           Some (ResponseError ''late''))) 1 5 =
      \<lparr>returned = Some (Some \<lparr>WorkflowJob = 7\<rparr>,
                        Some \<lparr>ID = 7, Status = ''failed'', Metadata = []\<rparr>,
                        Some (ResponseError ''late'')),
       handler_calls = [(7, 1, 5)]\<rparr>"
proof -
  let ?P = "\<lambda>t :: goint. \<lparr>launch_err = None, launch_check = None,
               launch_decoded = \<lparr>WorkflowJob = 7\<rparr>\<rparr>"
  let ?h = "\<lambda>(jobid :: goint) (i :: goint) (m :: goint).
       Some (Some \<lparr>ID = jobid, Status = ''failed'', Metadata = []\<rparr>,
             Some (ResponseError ''late''))"
  have h: "launch_err (?P 42) = None \<and> launch_check (?P 42) = None
      \<and> WorkflowJob (launch_decoded (?P 42)) \<noteq> 0"
    by simp
  from C7_launch_returns_handler_result [of ?P 42 ?h 1 5] h
  have "handler_calls (Launch ?P 42 ?h 1 5) = [(7, 1, 5)]"
    and "returned (Launch ?P 42 ?h 1 5) =
       Some (Some \<lparr>WorkflowJob = 7\<rparr>, Some \<lparr>ID = 7, Status = ''failed'', Metadata = []\<rparr>,
             Some (ResponseError ''late''))"
    by simp_all
  then show ?thesis
    by (cases "Launch ?P 42 ?h 1 5") simp
qed

text \<open>
  C6. When the payload lacks at least one of name, job\_type, inventory and project,
  \<open>CreateJobTemplate\<close> fails with the error of line 152, which names exactly the
  mandatory fields that are missing, and issues no request.
\<close>

theorem C6_missing_mandatory_field:
  "(\<exists>f \<in> set mandatoryFields. data f = None) \<longrightarrow>
     CreateJobTemplate Marshal PostJSON data params =
       \<lparr>created = (None, Some (MandatoryAbsent (filter (\<lambda>key. data key = None) mandatoryFields))),
        requests = []\<rparr>
     \<and> set (filter (\<lambda>key. data key = None) mandatoryFields) =
         {f \<in> set mandatoryFields. data f = None}
     \<and> filter (\<lambda>key. data key = None) mandatoryFields \<noteq> []"
  by (auto simp: CreateJobTemplate_def ValidateParams_def Let_def filter_empty_conv)

theorem C6_missing_mandatory_field_witness:
  "(\<exists>f \<in> set mandatoryFields.
       [''name'' \<mapsto> (1 :: nat), ''job_type'' \<mapsto> 2, ''project'' \<mapsto> 3] f = None)
   \<and> CreateJobTemplate (\<lambda>d. Inr ''{}'')
        (\<lambda>e b p. \<lparr>create_err = None, create_check = None, create_decoded = (0 :: nat)\<rparr>)
        [''name'' \<mapsto> (1 :: nat), ''job_type'' \<mapsto> 2, ''project'' \<mapsto> 3] () =
      \<lparr>created = (None, Some (MandatoryAbsent [''inventory''])), requests = []\<rparr>"
proof -
  let ?d = "[''name'' \<mapsto> (1 :: nat), ''job_type'' \<mapsto> 2, ''project'' \<mapsto> 3]"
  have h: "\<exists>f \<in> set mandatoryFields. ?d f = None"
    by (simp add: mandatoryFields_def)
  have m: "filter (\<lambda>key. ?d key = None) mandatoryFields = [''inventory'']"
    by (simp add: mandatoryFields_def)
  show ?thesis
    using h m C6_missing_mandatory_field [of ?d "\<lambda>d. Inr ''{}''"
        "\<lambda>e b p. \<lparr>create_err = None, create_check = None, create_decoded = (0 :: nat)\<rparr>" "()"]
    by simp
qed

end
